theory Spec2Isabelle
  imports Main "HOL-Library.Word" "HOL-Library.Sublist"
begin

unbundle bit_operations_syntax

text \<open>
  A shallow embedding of \<open>event.go\<close> (package \<open>nostr\<close>): the \<open>Event\<close> struct and its
  methods \<open>Serialize\<close>, \<open>GetID\<close>, \<open>CheckSignature\<close> and \<open>Sign\<close>, over models of the
  library calls they make.
\<close>

section \<open>Bytes, fixed-size arrays and errors\<close>

text \<open>
  Go strings and byte slices that hold text are \<open>string\<close> (a list of 8-bit \<open>char\<close>);
  binary data (digests, signatures, entropy) is a list of \<open>byte\<close>. The array types
  \<open>[32]byte\<close> and \<open>[64]byte\<close> are types of their own, as in Go: a value of
  \<open>byte32\<close> has exactly 32 bytes, and \<open>Rep_byte32 h\<close> is the slice \<open>h[:]\<close>.
\<close>

type_synonym byte = "8 word"

typedef byte32 = "{bs :: byte list. length bs = 32}"
  by (rule exI [of _ "replicate 32 0"]) simp

typedef byte64 = "{bs :: byte list. length bs = 64}"
  by (rule exI [of _ "replicate 64 0"]) simp

text \<open>
  A Go \<open>error\<close> value: the text its \<open>Error()\<close> method returns, and the error it wraps
  (the operand of \<open>%w\<close> in \<open>fmt.Errorf\<close>), if any.
\<close>

datatype error = Error (Error_text: string) (Unwrap: "error option")

abbreviation dq :: char where
  "dq \<equiv> CHR 0x22"

abbreviation sq :: char where
  "sq \<equiv> CHR 0x27"

section \<open>strconv: decimal integers\<close>

definition digit :: "nat \<Rightarrow> char" where
  "digit d = ''0123456789'' ! d"

function digits :: "nat \<Rightarrow> string" where
  "digits n = (if n < 10 then [digit n] else digits (n div 10) @ [digit (n mod 10)])"
  by pat_completeness auto
termination
  by (relation "measure id") auto

declare digits.simps [simp del]

text \<open>
  \<open>strconv.FormatInt(i, 10)\<close> (and \<open>strconv.AppendInt(nil, i, 10)\<close>): a minus sign for a
  negative number, then the decimal digits of the magnitude, most significant first.
\<close>

definition FormatInt :: "int \<Rightarrow> string" where
  "FormatInt i = (if i < 0 then CHR ''-'' # digits (nat (- i)) else digits (nat i))"

section \<open>encoding/hex\<close>

definition hextable :: string where
  "hextable = ''0123456789abcdef''"

text \<open>\<open>hex.EncodeToString\<close>: two characters of \<open>hextable\<close> per byte, high nibble first.\<close>

fun hex_EncodeToString :: "byte list \<Rightarrow> string" where
  "hex_EncodeToString [] = []"
| "hex_EncodeToString (v # src) =
     hextable ! (unat v div 16) # hextable ! (unat v mod 16) # hex_EncodeToString src"

text \<open>\<open>fromHexChar\<close>: digits, then lower-case, then upper-case letters.\<close>

definition fromHexChar :: "char \<Rightarrow> byte option" where
  "fromHexChar c =
     (let n = (of_char c :: nat) in
      if 48 \<le> n \<and> n \<le> 57 then Some (of_nat (n - 48))
      else if 97 \<le> n \<and> n \<le> 102 then Some (of_nat (n - 97 + 10))
      else if 65 \<le> n \<and> n \<le> 70 then Some (of_nat (n - 65 + 10))
      else None)"

text \<open>
  The text of \<open>hex.InvalidByteError\<close> prints the byte with the verb \<open>%#U\<close>:
  \<open>U+\<close> and four upper-case hex digits, then the character in single quotes
  when \<open>strconv.IsPrint\<close> holds for it (UTF-8 encoded above \<open>0x7F\<close>).
\<close>

definition upperhex :: string where
  "upperhex = ''0123456789ABCDEF''"

definition fmt_sharpU :: "char \<Rightarrow> string" where
  "fmt_sharpU c =
     (let n = (of_char c :: nat) in
      ''U+00'' @ [upperhex ! (n div 16), upperhex ! (n mod 16)] @
      (if 32 \<le> n \<and> n \<le> 126 then [CHR '' '', sq, c, sq]
       else if 161 \<le> n \<and> n \<noteq> 173
         then [CHR '' '', sq, char_of (192 + n div 64), char_of (128 + n mod 64), sq]
       else []))"

definition ErrLength :: error where
  "ErrLength = Error ''encoding/hex: odd length hex string'' None"

definition InvalidByteError :: "char \<Rightarrow> error" where
  "InvalidByteError c = Error (''encoding/hex: invalid byte: '' @ fmt_sharpU c) None"

text \<open>
  \<open>hex.DecodeString\<close>: pairs of hex characters, left to right; the first invalid
  character is reported, and a trailing single valid character is \<open>ErrLength\<close>.
  The callers in this file drop the bytes decoded before an error.
\<close>

fun hex_DecodeString :: "string \<Rightarrow> error + byte list" where
  "hex_DecodeString [] = Inr []"
| "hex_DecodeString [c] =
     (case fromHexChar c of None \<Rightarrow> Inl (InvalidByteError c) | Some a \<Rightarrow> Inl ErrLength)"
| "hex_DecodeString (c # d # s) =
     (case fromHexChar c of
        None \<Rightarrow> Inl (InvalidByteError c)
      | Some a \<Rightarrow>
          (case fromHexChar d of
             None \<Rightarrow> Inl (InvalidByteError d)
           | Some b \<Rightarrow>
               (case hex_DecodeString s of
                  Inl err \<Rightarrow> Inl err
                | Inr bs \<Rightarrow> Inr ((push_bit 4 a OR b) # bs))))"

section \<open>unicode/utf8 and strconv: quoting\<close>

text \<open>
  \<open>utf8.DecodeRuneInString\<close>: the rune at the start of a string and the number of bytes
  it takes. A byte that does not start a well-formed, shortest encoding of a rune
  that is no surrogate gives \<open>(RuneError, 1)\<close>. Runes are natural numbers.
\<close>

definition RuneError :: nat where
  "RuneError = 0xFFFD"

definition DecodeRuneInString :: "string \<Rightarrow> nat \<times> nat" where
  "DecodeRuneInString s =
     (case s of
        [] \<Rightarrow> (RuneError, 0)
      | c0 # t \<Rightarrow>
          (let s0 = (of_char c0 :: nat) in
           if s0 < 0x80 then (s0, 1)
           else if s0 < 0xC2 \<or> 0xF4 < s0 then (RuneError, 1)
           else
             (let sz = (if s0 < 0xE0 then 2 else if s0 < 0xF0 then 3 else 4 :: nat);
                  lo = (if s0 = 0xE0 then 0xA0 else if s0 = 0xF0 then 0x90 else 0x80 :: nat);
                  hi = (if s0 = 0xED then 0x9F else if s0 = 0xF4 then 0x8F else 0xBF :: nat)
              in if length s < sz then (RuneError, 1)
                 else
                   (let s1 = (of_char (s ! 1) :: nat) in
                    if s1 < lo \<or> hi < s1 then (RuneError, 1)
                    else if sz \<le> 2 then ((s0 mod 32) * 64 + s1 mod 64, 2)
                    else
                      (let s2 = (of_char (s ! 2) :: nat) in
                       if s2 < 0x80 \<or> 0xBF < s2 then (RuneError, 1)
                       else if sz \<le> 3
                         then ((s0 mod 16) * 4096 + (s1 mod 64) * 64 + s2 mod 64, 3)
                       else
                         (let s3 = (of_char (s ! 3) :: nat) in
                          if s3 < 0x80 \<or> 0xBF < s3 then (RuneError, 1)
                          else ((s0 mod 8) * 262144 + (s1 mod 64) * 4096 + (s2 mod 64) * 64
                                  + s3 mod 64, 4)))))))"

text \<open>
  \<open>utf8.ValidRune\<close> and \<open>utf8.AppendRune\<close>: the UTF-8 bytes of a rune, those of
  \<open>RuneError\<close> for a surrogate or a value past \<open>U+10FFFF\<close>.
\<close>

definition ValidRune :: "nat \<Rightarrow> bool" where
  "ValidRune r = (r < 0xD800 \<or> (0xDFFF < r \<and> r \<le> 0x10FFFF))"

definition AppendRune :: "nat \<Rightarrow> string" where
  "AppendRune r =
     (if r \<le> 0x7F then [char_of r]
      else if r \<le> 0x7FF then [char_of (0xC0 + r div 64), char_of (0x80 + r mod 64)]
      else if \<not> ValidRune r then [CHR 0xEF, CHR 0xBF, CHR 0xBD]
      else if r \<le> 0xFFFF
        then [char_of (0xE0 + r div 4096), char_of (0x80 + r div 64 mod 64),
              char_of (0x80 + r mod 64)]
      else [char_of (0xF0 + r div 262144), char_of (0x80 + r div 4096 mod 64),
            char_of (0x80 + r div 64 mod 64), char_of (0x80 + r mod 64)])"

text \<open>
  \<open>strconv.IsPrint\<close>: decided on the spot up to \<open>U+00FF\<close> (the ASCII characters from
  space to tilde, and the characters from \<open>U+00A1\<close> except the soft hyphen), looked
  up in the package's Unicode tables above. The tables are the argument \<open>tab\<close>.
\<close>

definition IsPrint :: "(nat \<Rightarrow> bool) \<Rightarrow> nat \<Rightarrow> bool" where
  "IsPrint tab r =
     (if r \<le> 0xFF then (0x20 \<le> r \<and> r \<le> 0x7E) \<or> (0xA1 \<le> r \<and> r \<noteq> 0xAD) else tab r)"

definition lowerhex :: string where
  "lowerhex = ''0123456789abcdef''"

text \<open>
  \<open>appendEscapedRune\<close> as \<open>AppendQuote\<close> calls it (double quote, neither ASCII only nor
  graphic only): a backslash before the quote and the backslash; a printable rune as
  it is; the Go escapes \<open>\a \b \f \n \r \t \v\<close>; \<open>\x\<close> and two hex digits for any other
  rune below space and for \<open>U+007F\<close> (as from Go 1.19); \<open>\u\<close> and four hex digits below
  \<open>U+10000\<close>, \<open>\U\<close> and eight above.
\<close>

definition appendEscapedRune :: "(nat \<Rightarrow> bool) \<Rightarrow> nat \<Rightarrow> string" where
  "appendEscapedRune tab r =
     (if r = 0x22 \<or> r = 0x5C then [CHR 0x5C, char_of r]
      else if IsPrint tab r then AppendRune r
      else if r = 0x07 then [CHR 0x5C, CHR ''a'']
      else if r = 0x08 then [CHR 0x5C, CHR ''b'']
      else if r = 0x0C then [CHR 0x5C, CHR ''f'']
      else if r = 0x0A then [CHR 0x5C, CHR ''n'']
      else if r = 0x0D then [CHR 0x5C, CHR ''r'']
      else if r = 0x09 then [CHR 0x5C, CHR ''t'']
      else if r = 0x0B then [CHR 0x5C, CHR ''v'']
      else if r < 0x20 \<or> r = 0x7F
        then [CHR 0x5C, CHR ''x'', lowerhex ! (r div 16), lowerhex ! (r mod 16)]
      else if \<not> ValidRune r
        then CHR 0x5C # ''ufffd''
      else if r < 0x10000
        then [CHR 0x5C, CHR ''u'', lowerhex ! (r div 4096 mod 16), lowerhex ! (r div 256 mod 16),
              lowerhex ! (r div 16 mod 16), lowerhex ! (r mod 16)]
      else [CHR 0x5C, CHR ''U'', lowerhex ! (r div 268435456 mod 16),
            lowerhex ! (r div 16777216 mod 16), lowerhex ! (r div 1048576 mod 16),
            lowerhex ! (r div 65536 mod 16), lowerhex ! (r div 4096 mod 16),
            lowerhex ! (r div 256 mod 16), lowerhex ! (r div 16 mod 16), lowerhex ! (r mod 16)])"

text \<open>
  The loop of \<open>appendQuotedWith\<close>: a byte below \<open>0x80\<close> is its own rune, any other
  position is decoded; a byte that decodes to \<open>(RuneError, 1)\<close> is written as \<open>\x\<close> and
  its two hex digits; the loop goes on \<open>width\<close> bytes further, and \<open>width\<close> is at least 1.
\<close>

fun appendQuotedWith :: "(nat \<Rightarrow> bool) \<Rightarrow> string \<Rightarrow> string" where
  "appendQuotedWith tab [] = []"
| "appendQuotedWith tab (c # t) =
     (let (r, width) =
            (if (of_char c :: nat) < 0x80 then (of_char c, 1) else DecodeRuneInString (c # t))
      in if width = 1 \<and> r = RuneError
         then [CHR 0x5C, CHR ''x'', lowerhex ! (of_char c div 16), lowerhex ! (of_char c mod 16)]
                @ appendQuotedWith tab t
         else appendEscapedRune tab r @ appendQuotedWith tab (drop (width - 1) t))"

text \<open>\<open>strconv.AppendQuote(nil, s)\<close>: the escaped runes between two double quotes.\<close>

definition AppendQuote :: "(nat \<Rightarrow> bool) \<Rightarrow> string \<Rightarrow> string" where
  "AppendQuote tab s = dq # appendQuotedWith tab s @ [dq]"

section \<open>The packages the file imports\<close>

text \<open>
  \<open>crypto/sha256\<close>, \<open>strconv\<close>'s quoting and \<open>github.com/fiatjaf/bip340\<close> are not
  part of the repository: the functions of \<open>event.go\<close> are modelled over any
  implementation of them, with the types \<open>event.go\<close> uses them at. Key types are
  whatever the two parsers return. The quoting routine is a field because it reads
  the Unicode tables of \<open>strconv\<close>; \<open>AppendQuote\<close> above is the package's algorithm over
  any such table. A function that returns a value and an error, and
  whose error is checked before the value is used, returns a sum; \<open>Verify\<close>, whose pair
  \<open>CheckSignature\<close> returns as it is, returns the pair.
\<close>

record ('pk, 'sk) extern =
  sha256_Sum256 :: "string \<Rightarrow> byte32"
  strconv_AppendQuote :: "string \<Rightarrow> string"
  bip340_ParsePublicKey :: "string \<Rightarrow> error + 'pk"
  bip340_ParsePrivateKey :: "string \<Rightarrow> error + 'sk"
  bip340_Sign :: "'sk \<Rightarrow> byte32 \<Rightarrow> byte list \<Rightarrow> error + byte64"
  bip340_Verify :: "'pk \<Rightarrow> byte32 \<Rightarrow> byte64 \<Rightarrow> bool \<times> error option"

section \<open>fastjson: arena values and their marshalling\<close>

text \<open>
  \<open>github.com/valyala/fastjson\<close> is not part of the repository either. This section
  follows the package for the calls \<open>Serialize\<close> makes (\<open>NewArray\<close>, \<open>NewNumberInt\<close>,
  \<open>NewString\<close>, \<open>SetArrayItem\<close>, \<open>MarshalTo\<close>). The constructors are named after the
  package's value types; \<open>Serialize\<close> builds no object and no boolean. A number keeps
  its decimal text, a string keeps its quoted literal as \<open>escapeString\<close> made it, an
  array keeps its items. The one step left to its implementation is the quoting of a
  string that has special characters, which the package hands to \<open>strconv.AppendQuote\<close>.
\<close>

datatype Value = TypeNull | TypeNumber string | TypeString string | TypeArray "Value list"

text \<open>
  \<open>hasSpecialChars\<close>: a double quote, a backslash or a byte below \<open>0x20\<close>.
\<close>

definition hasSpecialChars :: "string \<Rightarrow> bool" where
  "hasSpecialChars s =
     (dq \<in> set s \<or> CHR 0x5C \<in> set s \<or> list_ex (\<lambda>c. (of_char c :: nat) < 32) s)"

text \<open>
  \<open>escapeString\<close>: a string with no special character is copied between two double
  quotes; any other string goes to \<open>strconv.AppendQuote\<close>.
\<close>

definition escapeString :: "(string \<Rightarrow> string) \<Rightarrow> string \<Rightarrow> string" where
  "escapeString quote s = (if \<not> hasSpecialChars s then dq # s @ [dq] else quote s)"

definition NewNumberInt :: "64 word \<Rightarrow> Value" where
  "NewNumberInt n = TypeNumber (FormatInt (sint n))"

definition NewString :: "(string \<Rightarrow> string) \<Rightarrow> string \<Rightarrow> Value" where
  "NewString quote s = TypeString (escapeString quote s)"

definition NewArray :: Value where
  "NewArray = TypeArray []"

text \<open>
  \<open>SetArrayItem(idx, value)\<close>: nothing on a value that is not an array; otherwise the
  array is padded with nulls up to \<open>idx\<close> and the item is stored there. \<open>MarshalTo\<close>
  writes an array as its items between brackets, a comma after each but the last.
\<close>

fun SetArrayItem :: "Value \<Rightarrow> nat \<Rightarrow> Value \<Rightarrow> Value" where
  "SetArrayItem (TypeArray a) idx v =
     TypeArray ((a @ replicate (Suc idx - length a) TypeNull)[idx := v])"
| "SetArrayItem w idx v = w"

fun commas :: "string list \<Rightarrow> string" where
  "commas [] = []"
| "commas [s] = s"
| "commas (s # t # ts) = s @ CHR '','' # commas (t # ts)"

fun MarshalTo :: "Value \<Rightarrow> string" where
  "MarshalTo TypeNull = ''null''"
| "MarshalTo (TypeNumber s) = s"
| "MarshalTo (TypeString s) = s"
| "MarshalTo (TypeArray a) = CHR ''['' # commas (map MarshalTo a) @ '']''"

section \<open>The event\<close>

text \<open>
  \<open>time.Time\<close> as the pair its accessors \<open>Unix()\<close> and \<open>Nanosecond()\<close> return: the
  whole seconds since the Unix epoch (an \<open>int64\<close>) and the nanoseconds into that second.
\<close>

record Time =
  unixSec :: "64 word"
  nanosecond :: nat

definition Unix :: "Time \<Rightarrow> 64 word" where
  "Unix t = unixSec t"

type_synonym Tags = "string list list"

text \<open>Go's \<open>int\<close> is taken at its 64-bit width, so \<open>int(int64)\<close> is the identity.\<close>

record Event =
  ID :: string
  PubKey :: string
  CreatedAt :: Time
  Kind :: "64 word"
  Tags :: Tags
  Content :: string
  Sig :: string

text \<open>
  Modelled from the spec: \<open>tagsToFastjsonArray\<close> is defined outside \<open>event.go\<close>. The
  spec gives tags as an ordered sequence of ordered sequences of strings, converted
  into an array of arrays of strings in the same order.
\<close>

definition tagsToFastjsonArray :: "(string \<Rightarrow> string) \<Rightarrow> Tags \<Rightarrow> Value" where
  "tagsToFastjsonArray quote tags =
     TypeArray (map (\<lambda>tag. TypeArray (map (NewString quote) tag)) tags)"

definition Serialize :: "('pk, 'sk) extern \<Rightarrow> Event \<Rightarrow> string" where
  "Serialize x evt =
     (let quote = strconv_AppendQuote x;
          arr = NewArray;
          arr = SetArrayItem arr 0 (NewNumberInt 0);
          arr = SetArrayItem arr 1 (NewString quote (PubKey evt));
          arr = SetArrayItem arr 2 (NewNumberInt (Unix (CreatedAt evt)));
          arr = SetArrayItem arr 3 (NewNumberInt (Kind evt));
          arr = SetArrayItem arr 4 (tagsToFastjsonArray quote (Tags evt));
          arr = SetArrayItem arr 5 (NewString quote (Content evt))
      in MarshalTo arr)"

definition GetID :: "('pk, 'sk) extern \<Rightarrow> Event \<Rightarrow> string" where
  "GetID x evt =
     (let h = sha256_Sum256 x (Serialize x evt) in hex_EncodeToString (Rep_byte32 h))"

text \<open>
  \<open>fmt.Errorf\<close> with a format that ends in \<open>: %w\<close>: the text is the formatted
  prefix followed by the text of the wrapped error.
\<close>

definition Errorf_w :: "string \<Rightarrow> error \<Rightarrow> error" where
  "Errorf_w pre err = Error (pre @ Error_text err) (Some err)"

text \<open>
  The built-in \<open>copy(dst, src)\<close>: the first \<open>min (len dst) (len src)\<close> bytes of \<open>dst\<close>
  are overwritten; the result is the new content of \<open>dst\<close>.
\<close>

definition copy :: "byte list \<Rightarrow> byte list \<Rightarrow> byte list" where
  "copy dst src = take (length dst) src @ drop (length src) dst"

definition CheckSignature :: "('pk, 'sk) extern \<Rightarrow> Event \<Rightarrow> bool \<times> error option" where
  "CheckSignature x evt =
     (case bip340_ParsePublicKey x (PubKey evt) of
        Inl err \<Rightarrow>
          (False, Some (Errorf_w (''Event has invalid pubkey '' @ sq # PubKey evt @ sq # '': '') err))
      | Inr pubkey \<Rightarrow>
          (case hex_DecodeString (Sig evt) of
             Inl err \<Rightarrow> (False, Some (Errorf_w ''signature is invalid hex: '' err))
           | Inr s \<Rightarrow>
               if length s \<noteq> 64
               then (False,
                 Some (Error (''signature must be 64 bytes, not '' @ FormatInt (int (length s))) None))
               else
                 (let sig = Abs_byte64 (copy (replicate 64 0) s);
                      hash = sha256_Sum256 x (Serialize x evt)
                  in bip340_Verify x pubkey hash sig)))"

text \<open>
  \<open>crypto/rand.Read(b)\<close> fills \<open>b\<close> from the system's random source and returns the
  number of bytes it wrote and an error when that is less than \<open>len(b)\<close>. The source
  is the bytes it can still deliver and the error it reports once they run out; the
  bytes of \<open>b\<close> it did not reach stay as they were.
\<close>

datatype Reader = Reader (available: "byte list") (failure: error)

definition rand_Read :: "Reader \<Rightarrow> byte list \<Rightarrow> byte list \<times> nat \<times> error option" where
  "rand_Read r b =
     (let n = min (length (available r)) (length b)
      in (take n (available r) @ drop n b, n, if n < length b then Some (failure r) else None))"

text \<open>
  \<open>Sign\<close> has a pointer receiver: the model returns the event as the call leaves it,
  and the error. The two results of \<open>rand.Read\<close> are dropped, as in the source.
\<close>

definition Sign :: "('pk, 'sk) extern \<Rightarrow> Reader \<Rightarrow> Event \<Rightarrow> string \<Rightarrow> Event \<times> error option" where
  "Sign x rnd evt privateKey =
     (let h = sha256_Sum256 x (Serialize x evt) in
      case bip340_ParsePrivateKey x privateKey of
        Inl err \<Rightarrow>
          (evt, Some (Errorf_w
             (''Sign called with invalid private key '' @ sq # privateKey @ sq # '': '') err))
      | Inr s \<Rightarrow>
          (let (aux, n, rerr) = rand_Read rnd (replicate 32 0) in
           case bip340_Sign x s h aux of
             Inl err \<Rightarrow> (evt, Some err)
           | Inr sig \<Rightarrow>
               (evt\<lparr>ID := hex_EncodeToString (Rep_byte32 h),
                    Sig := hex_EncodeToString (Rep_byte64 sig)\<rparr>, None)))"

section \<open>The specification's vocabulary\<close>

text \<open>
  A compact JSON array of elements that are already encoded: brackets, the elements in
  order, one comma between neighbours and no white space.
\<close>

fun spec_array :: "string list \<Rightarrow> string" where
  "spec_array [] = ''[]''"
| "spec_array (e # es) = CHR ''['' # e @ concat (map (\<lambda>e'. CHR '','' # e') es) @ '']''"

text \<open>
  A JSON integer: an optional minus sign, then either the single digit zero or a
  non-zero digit followed by digits (no leading zero, fraction or exponent); and the
  number it denotes.
\<close>

definition spec_digit :: "char \<Rightarrow> bool" where
  "spec_digit c = (c \<in> set ''0123456789'')"

definition spec_json_natural :: "string \<Rightarrow> bool" where
  "spec_json_natural s = (s \<noteq> [] \<and> list_all spec_digit s \<and> (s = ''0'' \<or> hd s \<noteq> CHR ''0''))"

definition spec_json_integer :: "string \<Rightarrow> bool" where
  "spec_json_integer s =
     (case s of [] \<Rightarrow> False
      | c # t \<Rightarrow> if c = CHR ''-'' then spec_json_natural t \<and> t \<noteq> ''0'' else spec_json_natural s)"

definition spec_natural_value :: "string \<Rightarrow> nat" where
  "spec_natural_value s = foldl (\<lambda>acc c. 10 * acc + (of_char c - 48)) 0 s"

definition spec_integer_value :: "string \<Rightarrow> int" where
  "spec_integer_value s =
     (case s of [] \<Rightarrow> 0
      | c # t \<Rightarrow> if c = CHR ''-'' then - int (spec_natural_value t) else int (spec_natural_value s))"

text \<open>
  Standard JSON string escaping (RFC 8259, section 7): the double quote, the backslash
  and the control characters below \<open>0x20\<close> are escaped, the latter by their short
  forms where JSON has one and by \<open>\u00XX\<close> otherwise; every other byte stands for
  itself.
\<close>

definition spec_escape_char :: "char \<Rightarrow> string" where
  "spec_escape_char c =
     (if c = dq then [CHR 0x5C, dq]
      else if c = CHR 0x5C then [CHR 0x5C, CHR 0x5C]
      else if c = CHR 0x08 then [CHR 0x5C, CHR ''b'']
      else if c = CHR 0x0C then [CHR 0x5C, CHR ''f'']
      else if c = CHR 0x0A then [CHR 0x5C, CHR ''n'']
      else if c = CHR 0x0D then [CHR 0x5C, CHR ''r'']
      else if c = CHR 0x09 then [CHR 0x5C, CHR ''t'']
      else if (of_char c :: nat) < 32
        then CHR 0x5C # ''u00'' @ [hextable ! (of_char c div 16), hextable ! (of_char c mod 16)]
      else [c])"

definition spec_json_string :: "string \<Rightarrow> string" where
  "spec_json_string s = dq # concat (map spec_escape_char s) @ [dq]"

text \<open>
  The validity rule in the specification's words: the signature is judged against
  the author key and the digest given by the raw bytes of the identifier field.
\<close>

definition spec_valid_for_identifier :: "('pk, 'sk) extern \<Rightarrow> Event \<Rightarrow> bool" where
  "spec_valid_for_identifier x evt =
     (case (bip340_ParsePublicKey x (PubKey evt), hex_DecodeString (Sig evt), hex_DecodeString (ID evt)) of
        (Inr pubkey, Inr s, Inr d) \<Rightarrow>
          length s = 64 \<and> length d = 32 \<and> fst (bip340_Verify x pubkey (Abs_byte32 d) (Abs_byte64 s))
      | _ \<Rightarrow> False)"

text \<open>
  The three malformed inputs the specification names for verification: the author key
  does not parse, the signature is not hex, or it does not decode to 64 bytes.
\<close>

definition spec_malformed_input :: "('pk, 'sk) extern \<Rightarrow> Event \<Rightarrow> bool" where
  "spec_malformed_input x evt =
     (case bip340_ParsePublicKey x (PubKey evt) of
        Inl err \<Rightarrow> True
      | Inr pubkey \<Rightarrow>
          (case hex_DecodeString (Sig evt) of Inl err \<Rightarrow> True | Inr s \<Rightarrow> length s \<noteq> 64))"

text \<open>
  Strings made of printable ASCII characters and the five control characters for which
  JSON has a short escape (backspace, tab, line feed, form feed, carriage return).
\<close>

definition json_safe_ascii :: "string \<Rightarrow> bool" where
  "json_safe_ascii s =
     list_all (\<lambda>c. (32 \<le> (of_char c :: nat) \<and> (of_char c :: nat) \<le> 126)
                   \<or> c \<in> set [CHR 0x08, CHR 0x09, CHR 0x0A, CHR 0x0C, CHR 0x0D]) s"

section \<open>A small implementation of the imported packages\<close>

text \<open>
  A stand-in for the imported packages, used to run the functions on concrete events:
  keys are 32 bytes in hex, the public key of a private key is the key itself, a
  signature is the key followed by the digest, and a signature that does not verify is
  reported with an error, as \<open>CheckSignature\<close>'s comment says. The digest of a message
  is 32 copies of its length. Quoting is \<open>AppendQuote\<close> over a table that takes every
  rune above \<open>U+00FF\<close> as printable.
\<close>

definition stub_ParseKey :: "string \<Rightarrow> error + byte list" where
  "stub_ParseKey s =
     (case hex_DecodeString s of
        Inl err \<Rightarrow> Inl err
      | Inr k \<Rightarrow> if length k \<noteq> 32 then Inl (Error ''key must be 32 bytes'' None) else Inr k)"

definition stub_Sum256 :: "string \<Rightarrow> byte32" where
  "stub_Sum256 s = Abs_byte32 (replicate 32 (of_nat (length s)))"

definition stub_Sign :: "byte list \<Rightarrow> byte32 \<Rightarrow> byte list \<Rightarrow> error + byte64" where
  "stub_Sign k h aux =
     (if length aux \<noteq> 32 then Inl (Error ''aux must be 32 bytes'' None)
      else Inr (Abs_byte64 (copy (replicate 64 0) (k @ Rep_byte32 h))))"

definition stub_Verify :: "byte list \<Rightarrow> byte32 \<Rightarrow> byte64 \<Rightarrow> bool \<times> error option" where
  "stub_Verify k h sig =
     (if Rep_byte64 sig = k @ Rep_byte32 h then (True, None)
      else (False, Some (Error ''signature verification failed'' None)))"

definition stub_table :: "nat \<Rightarrow> bool" where
  "stub_table r = True"

definition stub :: "(byte list, byte list) extern" where
  "stub = \<lparr>sha256_Sum256 = stub_Sum256,
           strconv_AppendQuote = AppendQuote stub_table,
           bip340_ParsePublicKey = stub_ParseKey,
           bip340_ParsePrivateKey = stub_ParseKey,
           bip340_Sign = stub_Sign,
           bip340_Verify = stub_Verify\<rparr>"

section \<open>Concrete events\<close>

text \<open>The example vector of the specification, and the bytes it gives for it.\<close>

definition example_vector :: Event where
  "example_vector =
     \<lparr>ID = '''',
      PubKey = ''0000000000000000000000000000000000000000000000000000000000000000'',
      CreatedAt = \<lparr>unixSec = 0, nanosecond = 0\<rparr>,
      Kind = 1, Tags = [], Content = '''', Sig = ''''\<rparr>"

definition example_vector_bytes :: string where
  "example_vector_bytes =
     ''[0,'' @ dq # ''0000000000000000000000000000000000000000000000000000000000000000'' @
     dq # '',0,1,[],'' @ [dq, dq] @ '']''"

text \<open>An event with tags and a sub-second creation time.\<close>

definition example_event :: Event where
  "example_event =
     \<lparr>ID = '''', PubKey = ''ab'', CreatedAt = \<lparr>unixSec = 1600000000, nanosecond = 999999999\<rparr>,
      Kind = 1, Tags = [[''e'', ''5c''], [''p'']], Content = ''hello'', Sig = ''''\<rparr>"

text \<open>Two keys of the stand-in scheme: 32 bytes \<open>0x01\<close> and 32 bytes \<open>0x02\<close>.\<close>

definition key_a :: string where
  "key_a = ''0101010101010101010101010101010101010101010101010101010101010101''"

definition key_b :: string where
  "key_b = ''0202020202020202020202020202020202020202020202020202020202020202''"

text \<open>
  An unsigned note by the holder of \<open>key_a\<close>; the same note carrying the author key
  \<open>key_b\<close>; the first note as \<open>Sign\<close> leaves it under the stand-in scheme (its
  serialization has 91 bytes, \<open>0x5b\<close>); that signed note with another identifier; and
  the note with a signature of 64 zero bytes.
\<close>

definition note_event :: Event where
  "note_event =
     \<lparr>ID = '''', PubKey = key_a, CreatedAt = \<lparr>unixSec = 1600000000, nanosecond = 0\<rparr>,
      Kind = 1, Tags = [], Content = ''hi'', Sig = ''''\<rparr>"

definition other_author_event :: Event where
  "other_author_event =
     \<lparr>ID = '''', PubKey = key_b, CreatedAt = \<lparr>unixSec = 1600000000, nanosecond = 0\<rparr>,
      Kind = 1, Tags = [], Content = ''hi'', Sig = ''''\<rparr>"

definition signed_event :: Event where
  "signed_event =
     \<lparr>ID = ''5b5b5b5b5b5b5b5b5b5b5b5b5b5b5b5b5b5b5b5b5b5b5b5b5b5b5b5b5b5b5b5b'',
      PubKey = key_a, CreatedAt = \<lparr>unixSec = 1600000000, nanosecond = 0\<rparr>,
      Kind = 1, Tags = [], Content = ''hi'',
      Sig = key_a @ ''5b5b5b5b5b5b5b5b5b5b5b5b5b5b5b5b5b5b5b5b5b5b5b5b5b5b5b5b5b5b5b5b''\<rparr>"

definition wrong_id_event :: Event where
  "wrong_id_event =
     \<lparr>ID = ''0000000000000000000000000000000000000000000000000000000000000000'',
      PubKey = key_a, CreatedAt = \<lparr>unixSec = 1600000000, nanosecond = 0\<rparr>,
      Kind = 1, Tags = [], Content = ''hi'',
      Sig = key_a @ ''5b5b5b5b5b5b5b5b5b5b5b5b5b5b5b5b5b5b5b5b5b5b5b5b5b5b5b5b5b5b5b5b''\<rparr>"

definition bad_sig_event :: Event where
  "bad_sig_event =
     \<lparr>ID = '''', PubKey = key_a, CreatedAt = \<lparr>unixSec = 1600000000, nanosecond = 0\<rparr>,
      Kind = 1, Tags = [], Content = ''hi'',
      Sig = ''00000000000000000000000000000000000000000000000000000000000000000000000000000000000000000000000000000000000000000000000000000000''\<rparr>"

text \<open>The note of \<open>key_a\<close> with the single control byte \<open>0x01\<close> as its content.\<close>

definition control_event :: Event where
  "control_event =
     \<lparr>ID = '''', PubKey = key_a, CreatedAt = \<lparr>unixSec = 1600000000, nanosecond = 0\<rparr>,
      Kind = 1, Tags = [], Content = [CHR 0x01], Sig = ''''\<rparr>"

text \<open>A random source that delivers 32 bytes, and one that delivers none.\<close>

definition entropy :: Reader where
  "entropy = Reader (replicate 32 7) (Error ''unexpected EOF'' None)"

definition no_entropy :: Reader where
  "no_entropy = Reader [] (Error ''entropy source unavailable'' None)"

section \<open>Hex encoding\<close>

lemma length_hex_EncodeToString: "length (hex_EncodeToString bs) = 2 * length bs"
  by (induction bs) simp_all

lemma hextable_nth_mem: "n < 16 \<Longrightarrow> hextable ! n \<in> set hextable"
proof -
  assume "n < 16"
  then have "n \<in> {..<16}" by simp
  then show ?thesis
    by (auto simp: lessThan_nat_numeral lessThan_Suc hextable_def)
qed

lemma byte_nibbles_less: "unat (v :: byte) div 16 < 16" "unat v mod 16 < 16"
  using unsigned_less [of v, where 'a = nat] by simp_all

lemma set_hex_EncodeToString: "set (hex_EncodeToString bs) \<subseteq> set hextable"
  by (induction bs) (simp_all add: hextable_nth_mem byte_nibbles_less)

lemma fromHexChar_hextable: "n < 16 \<Longrightarrow> fromHexChar (hextable ! n) = Some (of_nat n)"
proof -
  assume "n < 16"
  then have "n \<in> {..<16}" by simp
  then show ?thesis
    by (auto simp: lessThan_nat_numeral lessThan_Suc hextable_def fromHexChar_def)
qed

lemma high_nibble: "of_nat (unat v div 16) = drop_bit 4 (v :: byte)"
proof -
  have "unat v div 16 = unat (drop_bit 4 v)"
    by (simp add: unat_drop_bit_eq) (simp add: drop_bit_eq_div)
  then show ?thesis by simp
qed

lemma low_nibble: "of_nat (unat v mod 16) = take_bit 4 (v :: byte)"
proof -
  have "unat v mod 16 = unat (take_bit 4 v)"
    by (simp add: unsigned_take_bit_eq) (simp add: take_bit_eq_mod)
  then show ?thesis by simp
qed

lemma nibbles_byte: "push_bit 4 (of_nat (unat v div 16)) OR of_nat (unat v mod 16) = (v :: byte)"
  unfolding high_nibble low_nibble
  by (rule bit_eqI) (auto simp: bit_simps)

lemma hex_DecodeString_EncodeToString: "hex_DecodeString (hex_EncodeToString bs) = Inr bs"
  by (induction bs) (simp_all add: fromHexChar_hextable byte_nibbles_less nibbles_byte)

section \<open>Decimal integers and plain strings\<close>

lemma digit_props:
  assumes "d < 10"
  shows "spec_digit (digit d)" and "of_char (digit d) = 48 + d"
    and "digit d \<noteq> CHR ''-''" and "digit d = CHR ''0'' \<longleftrightarrow> d = 0"
proof -
  from assms have "d \<in> {..<10}" by simp
  then have "spec_digit (digit d) \<and> of_char (digit d) = 48 + d
      \<and> digit d \<noteq> CHR ''-'' \<and> (digit d = CHR ''0'' \<longleftrightarrow> d = 0)"
    by (auto simp: lessThan_nat_numeral lessThan_Suc digit_def spec_digit_def)
  then show "spec_digit (digit d)" and "of_char (digit d) = 48 + d"
    and "digit d \<noteq> CHR ''-''" and "digit d = CHR ''0'' \<longleftrightarrow> d = 0"
    by simp_all
qed

lemma digits_nonempty: "digits n \<noteq> []"
  by (subst digits.simps) simp

lemma hd_digits: "hd (digits n) = CHR ''0'' \<longleftrightarrow> n = 0"
proof (induction n rule: digits.induct)
  case (1 n)
  show ?case
  proof (cases "n < 10")
    case True
    then show ?thesis
      by (subst digits.simps) (simp add: digit_props)
  next
    case False
    with 1 have "hd (digits (n div 10)) \<noteq> CHR ''0''" by simp
    with False show ?thesis
      by (subst digits.simps) (simp add: digits_nonempty)
  qed
qed

lemma hd_digits_not_minus: "hd (digits n) \<noteq> CHR ''-''"
proof (induction n rule: digits.induct)
  case (1 n)
  then show ?case
    by (subst digits.simps) (simp add: digit_props digits_nonempty)
qed

lemma digits_all: "list_all spec_digit (digits n)"
proof (induction n rule: digits.induct)
  case (1 n)
  then show ?case
    by (subst digits.simps) (simp add: digit_props)
qed

lemma digits_zero: "digits n = ''0'' \<longleftrightarrow> n = 0"
proof
  assume "digits n = ''0''"
  then have "hd (digits n) = CHR ''0''" by simp
  then show "n = 0" by (simp add: hd_digits)
next
  assume "n = 0"
  then show "digits n = ''0''" by (simp add: digits.simps digit_def)
qed

lemma spec_json_natural_digits: "spec_json_natural (digits n)"
  by (auto simp: spec_json_natural_def digits_nonempty digits_all hd_digits digits_zero)

lemma spec_natural_value_snoc:
  "spec_natural_value (s @ [c]) = 10 * spec_natural_value s + (of_char c - 48)"
  by (simp add: spec_natural_value_def)

lemma spec_natural_value_digits: "spec_natural_value (digits n) = n"
proof (induction n rule: digits.induct)
  case (1 n)
  show ?case
  proof (cases "n < 10")
    case True
    then show ?thesis
      by (subst digits.simps) (simp add: spec_natural_value_def digit_props)
  next
    case False
    with 1 have "spec_natural_value (digits (n div 10)) = n div 10" by simp
    with False show ?thesis
      by (subst digits.simps) (simp add: spec_natural_value_snoc digit_props)
  qed
qed

lemma spec_json_integer_FormatInt: "spec_json_integer (FormatInt i)"
proof (cases "i < 0")
  case True
  then show ?thesis
    by (simp add: FormatInt_def spec_json_integer_def spec_json_natural_digits digits_zero)
next
  case False
  obtain c t where ct: "digits (nat i) = c # t"
    using digits_nonempty [of "nat i"] by (cases "digits (nat i)") auto
  then have "c \<noteq> CHR ''-''"
    using hd_digits_not_minus [of "nat i"] by simp
  with False ct show ?thesis
    using spec_json_natural_digits [of "nat i"]
    by (simp add: FormatInt_def spec_json_integer_def)
qed

lemma spec_integer_value_FormatInt: "spec_integer_value (FormatInt i) = i"
proof (cases "i < 0")
  case True
  then show ?thesis
    by (simp add: FormatInt_def spec_integer_value_def spec_natural_value_digits)
next
  case False
  obtain c t where ct: "digits (nat i) = c # t"
    using digits_nonempty [of "nat i"] by (cases "digits (nat i)") auto
  then have "c \<noteq> CHR ''-''"
    using hd_digits_not_minus [of "nat i"] by simp
  with False ct show ?thesis
    using spec_natural_value_digits [of "nat i"]
    by (simp add: FormatInt_def spec_integer_value_def)
qed

lemma spec_escape_char_plain:
  "c \<noteq> dq \<Longrightarrow> c \<noteq> CHR 0x5C \<Longrightarrow> \<not> (of_char c :: nat) < 32 \<Longrightarrow> spec_escape_char c = [c]"
  by (auto simp: spec_escape_char_def)

lemma escapeString_plain:
  "\<not> hasSpecialChars s \<Longrightarrow> escapeString q s = spec_json_string s"
proof -
  assume "\<not> hasSpecialChars s"
  then have "concat (map spec_escape_char s) = s"
    by (induction s) (auto simp: hasSpecialChars_def spec_escape_char_plain)
  with \<open>\<not> hasSpecialChars s\<close> show ?thesis
    by (simp add: escapeString_def spec_json_string_def)
qed

section \<open>The layout of the serialization\<close>

lemma commas_spec:
  "CHR ''['' # commas es @ '']'' = spec_array es"
proof (cases es)
  case Nil
  then show ?thesis by simp
next
  case (Cons e es')
  have "commas (e # es') = e @ concat (map (\<lambda>e'. CHR '','' # e') es')"
    by (induction es' arbitrary: e) simp_all
  with Cons show ?thesis by simp
qed

lemma MarshalTo_array: "MarshalTo (TypeArray a) = spec_array (map MarshalTo a)"
  by (simp add: commas_spec)

lemma MarshalTo_tags:
  "MarshalTo (tagsToFastjsonArray q tags) =
     spec_array (map (\<lambda>tag. spec_array (map (escapeString q) tag)) tags)"
  by (simp add: tagsToFastjsonArray_def MarshalTo_array NewString_def comp_def del: MarshalTo.simps(4))

lemma Serialize_eq:
  "Serialize x evt =
     spec_array
      [''0'',
       escapeString (strconv_AppendQuote x) (PubKey evt),
       FormatInt (sint (unixSec (CreatedAt evt))),
       FormatInt (sint (Kind evt)),
       spec_array (map (\<lambda>tag. spec_array (map (escapeString (strconv_AppendQuote x)) tag)) (Tags evt)),
       escapeString (strconv_AppendQuote x) (Content evt)]"
proof -
  have zero: "FormatInt 0 = ''0''"
    by (simp add: FormatInt_def digits.simps digit_def)
  have "Serialize x evt =
      MarshalTo (TypeArray
        [NewNumberInt 0,
         NewString (strconv_AppendQuote x) (PubKey evt),
         NewNumberInt (Unix (CreatedAt evt)),
         NewNumberInt (Kind evt),
         tagsToFastjsonArray (strconv_AppendQuote x) (Tags evt),
         NewString (strconv_AppendQuote x) (Content evt)])"
    by (simp add: Serialize_def NewArray_def Let_def del: MarshalTo.simps)
  also have "\<dots> = spec_array (map MarshalTo [NewNumberInt 0,
         NewString (strconv_AppendQuote x) (PubKey evt),
         NewNumberInt (Unix (CreatedAt evt)),
         NewNumberInt (Kind evt),
         tagsToFastjsonArray (strconv_AppendQuote x) (Tags evt),
         NewString (strconv_AppendQuote x) (Content evt)])"
    by (rule MarshalTo_array)
  finally show ?thesis
    by (simp add: MarshalTo_tags NewNumberInt_def NewString_def Unix_def zero del: spec_array.simps)
qed

section \<open>Signing and verification, step by step\<close>

lemma copy_full: "length s = 64 \<Longrightarrow> copy (replicate 64 0) s = s"
  by (simp add: copy_def)

lemma length_Rep_byte32: "length (Rep_byte32 h) = 32"
  using Rep_byte32 [of h] by simp

lemma length_Rep_byte64: "length (Rep_byte64 sig) = 64"
  using Rep_byte64 [of sig] by simp

lemma CheckSignature_verify:
  assumes "bip340_ParsePublicKey x (PubKey evt) = Inr pubkey"
    and "hex_DecodeString (Sig evt) = Inr s" and "length s = 64"
  shows "CheckSignature x evt =
           bip340_Verify x pubkey (sha256_Sum256 x (Serialize x evt)) (Abs_byte64 s)"
  using assms by (simp add: CheckSignature_def copy_full)

lemma Serialize_update_ID_Sig:
  "Serialize x (evt\<lparr>ID := i, Sig := g\<rparr>) = Serialize x evt"
  by (simp add: Serialize_def)

lemma CheckSignature_update_ID:
  "CheckSignature x (evt\<lparr>ID := i\<rparr>) = CheckSignature x evt"
proof -
  have "Serialize x (evt\<lparr>ID := i\<rparr>) = Serialize x evt"
    by (simp add: Serialize_def)
  then show ?thesis
    by (simp add: CheckSignature_def Let_def split: sum.splits)
qed

lemma Sign_cases:
  "Sign x rnd evt privateKey =
     (case bip340_ParsePrivateKey x privateKey of
        Inl err \<Rightarrow>
          (evt, Some (Errorf_w
             (''Sign called with invalid private key '' @ sq # privateKey @ sq # '': '') err))
      | Inr s \<Rightarrow>
          (case bip340_Sign x s (sha256_Sum256 x (Serialize x evt))
                  (fst (rand_Read rnd (replicate 32 0))) of
             Inl err \<Rightarrow> (evt, Some err)
           | Inr sig \<Rightarrow>
               (evt\<lparr>ID := hex_EncodeToString (Rep_byte32 (sha256_Sum256 x (Serialize x evt))),
                    Sig := hex_EncodeToString (Rep_byte64 sig)\<rparr>, None)))"
  by (simp add: Sign_def Let_def split: prod.splits sum.splits)

section \<open>Quoting\<close>

lemma char_eq_iff_nat: "(c = d) = ((of_char c :: nat) = of_char d)"
  by (simp add: of_char_eq_iff)

lemma AppendQuote_control_byte: "AppendQuote tab [CHR 0x01] = dq # CHR 0x5C # ''x01'' @ [dq]"
  by (simp add: AppendQuote_def appendEscapedRune_def IsPrint_def RuneError_def lowerhex_def)

lemma appendEscapedRune_safe:
  assumes "(32 \<le> (of_char c :: nat) \<and> (of_char c :: nat) \<le> 126)
             \<or> c \<in> set [CHR 0x08, CHR 0x09, CHR 0x0A, CHR 0x0C, CHR 0x0D]"
  shows "appendEscapedRune tab (of_char c) = spec_escape_char c"
proof -
  have c: "char_of (of_char c :: nat) = c" by simp
  have q: "char_of (34 :: nat) = dq" "char_of (92 :: nat) = CHR 0x5C"
    by (simp_all add: char_eq_iff_nat)
  show ?thesis
    using assms
    by (auto simp: appendEscapedRune_def spec_escape_char_def IsPrint_def AppendRune_def c q
        char_eq_iff_nat [of c])
qed

lemma appendQuotedWith_safe:
  "json_safe_ascii s \<Longrightarrow> appendQuotedWith tab s = concat (map spec_escape_char s)"
proof (induction s)
  case Nil
  show ?case by simp
next
  case (Cons c t)
  then have safe: "(32 \<le> (of_char c :: nat) \<and> (of_char c :: nat) \<le> 126)
             \<or> c \<in> set [CHR 0x08, CHR 0x09, CHR 0x0A, CHR 0x0C, CHR 0x0D]"
    and rest: "appendQuotedWith tab t = concat (map spec_escape_char t)"
    by (simp_all add: json_safe_ascii_def)
  from safe have ascii: "(of_char c :: nat) < 128"
    by (auto simp: char_eq_iff_nat [of c])
  then have "appendQuotedWith tab (c # t) = appendEscapedRune tab (of_char c) @ appendQuotedWith tab t"
    by (simp add: RuneError_def)
  with safe rest show ?case
    by (simp add: appendEscapedRune_safe)
qed

text \<open>
  Where Go's quoting and JSON's agree: on a string of printable ASCII characters and
  the five control characters with a short JSON escape, \<open>escapeString\<close> over
  \<open>AppendQuote\<close> writes the standard JSON string.
\<close>

lemma escapeString_json_safe:
  "json_safe_ascii s \<Longrightarrow> escapeString (AppendQuote tab) s = spec_json_string s"
proof (cases "hasSpecialChars s")
  case False
  then show ?thesis
    by (rule escapeString_plain)
next
  case True
  assume "json_safe_ascii s"
  with True show ?thesis
    by (simp add: escapeString_def AppendQuote_def appendQuotedWith_safe spec_json_string_def)
qed

section \<open>The stand-in scheme on the concrete events\<close>

lemma replicate_32:
  "replicate 32 v = [v, v, v, v, v, v, v, v, v, v, v, v, v, v, v, v, v, v, v, v, v, v, v, v, v, v, v, v, v, v, v, v]"
  by (simp add: eval_nat_numeral)

lemma stub_ParseKey_a: "stub_ParseKey key_a = Inr (replicate 32 1)"
  by (simp add: stub_ParseKey_def key_a_def fromHexChar_def replicate_32)

lemma stub_ParseKey_b: "stub_ParseKey key_b = Inr (replicate 32 2)"
  by (simp add: stub_ParseKey_def key_b_def fromHexChar_def replicate_32)

lemma stub_ParseKey_zz: "stub_ParseKey ''zz'' = Inl (InvalidByteError (CHR ''z''))"
  by (simp add: stub_ParseKey_def fromHexChar_def)

lemma stub_Sign_Verify:
  "length k = 32 \<Longrightarrow> stub_Sign k h aux = Inr sig \<Longrightarrow> stub_Verify k h sig = (True, None)"
  by (auto simp: stub_Sign_def stub_Verify_def copy_def length_Rep_byte32 Abs_byte64_inverse
      split: if_splits)

lemma aux_entropy: "rand_Read entropy (replicate 32 0) = (replicate 32 7, 32, None)"
  by (simp add: rand_Read_def entropy_def)

lemma aux_no_entropy:
  "rand_Read no_entropy (replicate 32 0) =
     (replicate 32 0, 0, Some (Error ''entropy source unavailable'' None))"
  by (simp add: rand_Read_def no_entropy_def)

lemma length_Serialize_hi:
  "length (Serialize stub \<lparr>ID = i, PubKey = key_a, CreatedAt = \<lparr>unixSec = 1600000000, nanosecond = 0\<rparr>,
      Kind = 1, Tags = [], Content = ''hi'', Sig = g\<rparr>) = 91"
  by (simp add: Serialize_eq key_a_def stub_def escapeString_def hasSpecialChars_def
      FormatInt_def digits.simps digit_def)

lemma hex_5b: "hex_EncodeToString (replicate 32 91) =
   ''5b5b5b5b5b5b5b5b5b5b5b5b5b5b5b5b5b5b5b5b5b5b5b5b5b5b5b5b5b5b5b5b''"
  by (simp add: replicate_32 hextable_def)

lemma hex_01: "hex_EncodeToString (replicate 32 1) = key_a"
  by (simp add: replicate_32 hextable_def key_a_def)

lemma hex_EncodeToString_append:
  "hex_EncodeToString (a @ b) = hex_EncodeToString a @ hex_EncodeToString b"
  by (induction a) simp_all

lemma stub_Sign_eq:
  "length k = 32 \<Longrightarrow> length aux = 32 \<Longrightarrow> stub_Sign k h aux = Inr (Abs_byte64 (k @ Rep_byte32 h))"
  by (simp add: stub_Sign_def copy_def length_Rep_byte32)

lemma Rep_stub_Sum256: "Rep_byte32 (stub_Sum256 s) = replicate 32 (of_nat (length s))"
  by (simp add: stub_Sum256_def Abs_byte32_inverse)

lemma stub_Verify_eq:
  "length k = 32 \<Longrightarrow> length k' = 32 \<Longrightarrow>
   stub_Verify k' h (Abs_byte64 (k @ Rep_byte32 h)) =
     (if k = k' then (True, None) else (False, Some (Error ''signature verification failed'' None)))"
  by (simp add: stub_Verify_def Abs_byte64_inverse length_Rep_byte32)

lemma length_rand_Read: "length (fst (rand_Read rnd b)) = length b"
  by (simp add: rand_Read_def Let_def)

lemma Sign_stub_note:
  "Sign stub rnd note_event key_a = (signed_event, None)"
  by (simp add: Sign_cases stub_def stub_ParseKey_a length_rand_Read stub_Sign_eq
      Abs_byte64_inverse length_Rep_byte32 hex_EncodeToString_append Rep_stub_Sum256)
     (simp add: note_event_def signed_event_def length_Serialize_hi [unfolded stub_def] hex_5b hex_01)

lemma decode_sig_5b:
  "hex_DecodeString (key_a @ ''5b5b5b5b5b5b5b5b5b5b5b5b5b5b5b5b5b5b5b5b5b5b5b5b5b5b5b5b5b5b5b5b'') =
     Inr (replicate 32 1 @ replicate 32 91)"
  using hex_DecodeString_EncodeToString [of "replicate 32 1 @ replicate 32 91"]
  by (simp only: hex_EncodeToString_append hex_5b hex_01)

lemma decode_zeros64:
  "hex_DecodeString ''00000000000000000000000000000000000000000000000000000000000000000000000000000000000000000000000000000000000000000000000000000000'' = Inr (replicate 64 0)"
proof -
  have "hex_EncodeToString (replicate 32 0 @ replicate 32 0) =
     ''00000000000000000000000000000000000000000000000000000000000000000000000000000000000000000000000000000000000000000000000000000000''"
    by (simp add: hex_EncodeToString_append replicate_32 hextable_def)
  moreover have "replicate 32 0 @ replicate 32 (0 :: byte) = replicate 64 0"
    by (simp add: replicate_add [symmetric])
  ultimately show ?thesis
    using hex_DecodeString_EncodeToString [of "replicate 32 0 @ replicate 32 0"] by simp
qed

lemma CheckSignature_signed: "CheckSignature stub signed_event = (True, None)"
proof -
  have "CheckSignature stub signed_event =
      bip340_Verify stub (replicate 32 1) (sha256_Sum256 stub (Serialize stub signed_event))
        (Abs_byte64 (replicate 32 1 @ replicate 32 91))"
    by (rule CheckSignature_verify)
       (simp_all add: signed_event_def stub_def stub_ParseKey_a decode_sig_5b)
  also have "\<dots> = (True, None)"
    by (simp add: stub_def stub_Verify_def Abs_byte64_inverse Rep_stub_Sum256)
       (simp add: signed_event_def length_Serialize_hi [unfolded stub_def])
  finally show ?thesis .
qed

lemma GetID_signed: "GetID stub signed_event = ID signed_event"
  by (simp add: GetID_def stub_def Rep_stub_Sum256)
     (simp add: signed_event_def length_Serialize_hi [unfolded stub_def] hex_5b)

section \<open>The claims\<close>

subsection \<open>Serialization\<close>

text \<open>
  The layout, for every event and every quoting routine: a compact JSON array of
  exactly six elements, in this order: the literal \<open>0\<close>; the author key as a string
  literal; the creation time as the integer of whole seconds since the epoch, whatever
  the nanoseconds are; the kind as an integer; the tags as an array of arrays of string
  literals in the order given; the content as a string literal. Both integers are
  JSON integers that denote the field's value. A string literal is what
  \<open>escapeString\<close> makes of the field; for every string without a quote, a backslash or
  a control byte this is the standard JSON string.
\<close>

lemma Serialize_layout:
  "Serialize x evt =
     spec_array
      [''0'',
       escapeString (strconv_AppendQuote x) (PubKey evt),
       FormatInt (sint (Unix (CreatedAt evt))),
       FormatInt (sint (Kind evt)),
       spec_array (map (\<lambda>tag. spec_array (map (escapeString (strconv_AppendQuote x)) tag)) (Tags evt)),
       escapeString (strconv_AppendQuote x) (Content evt)]
   \<and> spec_json_integer (FormatInt (sint (Unix (CreatedAt evt))))
   \<and> spec_integer_value (FormatInt (sint (Unix (CreatedAt evt)))) = sint (unixSec (CreatedAt evt))
   \<and> Serialize x (evt\<lparr>CreatedAt := (CreatedAt evt)\<lparr>nanosecond := ns\<rparr>\<rparr>) = Serialize x evt
   \<and> spec_json_integer (FormatInt (sint (Kind evt)))
   \<and> spec_integer_value (FormatInt (sint (Kind evt))) = sint (Kind evt)
   \<and> (\<forall>s. \<not> hasSpecialChars s \<longrightarrow> escapeString (strconv_AppendQuote x) s = spec_json_string s)"
proof -
  have "Serialize x (evt\<lparr>CreatedAt := (CreatedAt evt)\<lparr>nanosecond := ns\<rparr>\<rparr>) = Serialize x evt"
    by (simp add: Serialize_def Unix_def)
  then show ?thesis
    using Serialize_eq [of x evt]
    by (simp add: Unix_def spec_json_integer_FormatInt spec_integer_value_FormatInt escapeString_plain)
qed

text \<open>
  The event \<open>example_event\<close>, created 999999999 nanoseconds into its second, serializes
  to \<open>[0,"ab",1600000000,1,[["e","5c"],["p"]],"hello"]\<close>.
\<close>

lemma Serialize_example_event:
  "Serialize stub example_event =
     ''[0,'' @ dq # ''ab'' @ dq # '',1600000000,1,[['' @ dq # ''e'' @ dq # '','' @ dq # ''5c'' @ dq #
     ''],['' @ dq # ''p'' @ dq # '']],'' @ dq # ''hello'' @ dq # '']''"
  by (simp add: Serialize_eq example_event_def stub_def Unix_def escapeString_def hasSpecialChars_def
      FormatInt_def digits.simps digit_def)

text \<open>
  C1. The content is not always a JSON string with standard JSON escaping. For the
  note whose content is the single control byte \<open>0x01\<close>, and every quoting routine that
  is \<open>strconv.AppendQuote\<close> (over whatever Unicode tables), \<open>Serialize\<close> returns
  \<open>[0,"0101...01",1600000000,1,[],"\x01"]\<close>: the six elements are in their places, and
  the content carries the Go escape \<open>\x01\<close> where the standard JSON string is
  \<open>"\u0001"\<close>.
\<close>

theorem Serialize_control_byte:
  assumes "strconv_AppendQuote x = AppendQuote tab"
  shows "Serialize x control_event =
           ''[0,'' @ dq # key_a @ dq # '',1600000000,1,[],'' @ dq # CHR 0x5C # ''x01'' @ dq # '']''
         \<and> spec_json_string (Content control_event) = dq # CHR 0x5C # ''u0001'' @ [dq]
         \<and> escapeString (strconv_AppendQuote x) (Content control_event)
               \<noteq> spec_json_string (Content control_event)"
proof -
  have plain: "\<not> hasSpecialChars key_a"
    by (simp add: hasSpecialChars_def key_a_def)
  have special: "hasSpecialChars [CHR 0x01]"
    by (simp add: hasSpecialChars_def)
  have std: "spec_json_string [CHR 0x01] = dq # CHR 0x5C # ''u0001'' @ [dq]"
    by (simp add: spec_json_string_def spec_escape_char_def hextable_def)
  have "Serialize x control_event =
      ''[0,'' @ dq # key_a @ dq # '',1600000000,1,[],'' @ dq # CHR 0x5C # ''x01'' @ dq # '']''"
    by (simp add: Serialize_eq control_event_def escapeString_def plain special assms
        AppendQuote_control_byte Unix_def FormatInt_def digits.simps digit_def)
  then show ?thesis
    by (simp add: control_event_def escapeString_def special assms AppendQuote_control_byte std)
qed

theorem Serialize_control_byte_witness:
  "strconv_AppendQuote stub = AppendQuote stub_table
   \<and> Serialize stub control_event =
       ''[0,'' @ dq # key_a @ dq # '',1600000000,1,[],'' @ dq # CHR 0x5C # ''x01'' @ dq # '']''"
proof -
  have q: "strconv_AppendQuote stub = AppendQuote stub_table"
    by (simp add: stub_def)
  show ?thesis
    using q Serialize_control_byte [OF q] by simp
qed

text \<open>
  C8. For the event with the author key of 64 zero characters, creation time 0, kind 1,
  no tags and empty content, \<open>Serialize\<close> returns exactly the bytes of
  \<open>[0,"0000000000000000000000000000000000000000000000000000000000000000",0,1,[],""]\<close>,
  and the identifier is the hex encoding of the SHA-256 digest of these bytes.
\<close>

theorem example_vector_serialization:
  "Serialize x example_vector = example_vector_bytes
   \<and> GetID x example_vector = hex_EncodeToString (Rep_byte32 (sha256_Sum256 x example_vector_bytes))"
proof -
  have "Serialize x example_vector = example_vector_bytes"
    by (simp add: Serialize_def example_vector_def example_vector_bytes_def NewArray_def
        NewNumberInt_def NewString_def tagsToFastjsonArray_def Unix_def escapeString_def
        hasSpecialChars_def FormatInt_def digits.simps digit_def)
  then show ?thesis by (simp add: GetID_def)
qed

text \<open>
  C9. Two events that agree on the author key, the creation time, the kind, the tags
  and the content have the same serialization and the same computed identifier,
  whatever their \<open>ID\<close> and \<open>Sig\<close> fields hold.
\<close>

theorem Serialize_ignores_ID_Sig:
  assumes "PubKey a = PubKey b" and "CreatedAt a = CreatedAt b" and "Kind a = Kind b"
    and "Tags a = Tags b" and "Content a = Content b"
  shows "Serialize x a = Serialize x b \<and> GetID x a = GetID x b"
  using assms by (simp add: Serialize_def GetID_def)

theorem Serialize_ignores_ID_Sig_witness:
  "ID signed_event \<noteq> ID note_event \<and> Sig signed_event \<noteq> Sig note_event
   \<and> Serialize stub signed_event = Serialize stub note_event
   \<and> GetID stub signed_event = GetID stub note_event"
proof -
  have "ID signed_event \<noteq> ID note_event \<and> Sig signed_event \<noteq> Sig note_event"
    by (simp add: signed_event_def note_event_def)
  moreover have "Serialize stub signed_event = Serialize stub note_event
      \<and> GetID stub signed_event = GetID stub note_event"
    by (rule Serialize_ignores_ID_Sig) (simp_all add: signed_event_def note_event_def)
  ultimately show ?thesis by simp
qed

subsection \<open>The identifier\<close>

text \<open>
  C2. For every event, \<open>GetID\<close> is the hex encoding of the SHA-256 digest of the
  event's serialization: 64 characters, all of them digits or lower-case letters
  \<open>a\<close> to \<open>f\<close>, that decode to the 32 bytes of the digest.
\<close>

theorem GetID_sha256_hex:
  "GetID x evt = hex_EncodeToString (Rep_byte32 (sha256_Sum256 x (Serialize x evt)))
   \<and> length (GetID x evt) = 64
   \<and> set (GetID x evt) \<subseteq> set ''0123456789abcdef''
   \<and> hex_DecodeString (GetID x evt) = Inr (Rep_byte32 (sha256_Sum256 x (Serialize x evt)))"
proof -
  have "length (Rep_byte32 (sha256_Sum256 x (Serialize x evt))) = 32"
    by (rule length_Rep_byte32)
  then show ?thesis
    using set_hex_EncodeToString [of "Rep_byte32 (sha256_Sum256 x (Serialize x evt))"]
    by (simp add: GetID_def length_hex_EncodeToString hex_DecodeString_EncodeToString hextable_def)
qed

theorem GetID_sha256_hex_witness:
  "GetID stub note_event = ''5b5b5b5b5b5b5b5b5b5b5b5b5b5b5b5b5b5b5b5b5b5b5b5b5b5b5b5b5b5b5b5b''
   \<and> length (GetID stub note_event) = 64"
proof -
  have "hex_EncodeToString (Rep_byte32 (sha256_Sum256 stub (Serialize stub note_event))) =
      ''5b5b5b5b5b5b5b5b5b5b5b5b5b5b5b5b5b5b5b5b5b5b5b5b5b5b5b5b5b5b5b5b''"
    by (simp add: stub_def Rep_stub_Sum256)
       (simp add: note_event_def length_Serialize_hi [unfolded stub_def] hex_5b)
  then show ?thesis
    using GetID_sha256_hex [where x = stub and evt = note_event] by simp
qed

subsection \<open>Signing\<close>

text \<open>
  C4. \<open>Sign\<close> either returns no error, and then the private key parsed, the library
  signed the digest of the serialization, and the event differs from the one passed
  in exactly by \<open>ID\<close>, the hex of that same digest (which is \<open>GetID\<close> of the event),
  and \<open>Sig\<close>, the hex of the signature made for it; or it returns an error and the
  event is as it was.
\<close>

theorem Sign_sets_both_or_neither:
  "(case Sign x rnd evt privateKey of
      (evt', None) \<Rightarrow>
        (\<exists>s sig. bip340_ParsePrivateKey x privateKey = Inr s
           \<and> bip340_Sign x s (sha256_Sum256 x (Serialize x evt))
                (fst (rand_Read rnd (replicate 32 0))) = Inr sig
           \<and> evt' = evt\<lparr>ID := hex_EncodeToString (Rep_byte32 (sha256_Sum256 x (Serialize x evt))),
                         Sig := hex_EncodeToString (Rep_byte64 sig)\<rparr>
           \<and> ID evt' = GetID x evt)
    | (evt', Some err) \<Rightarrow> evt' = evt)"
proof (cases "bip340_ParsePrivateKey x privateKey")
  case (Inl err)
  then show ?thesis
    by (simp add: Sign_cases)
next
  case key: (Inr s)
  show ?thesis
  proof (cases "bip340_Sign x s (sha256_Sum256 x (Serialize x evt))
                  (fst (rand_Read rnd (replicate 32 0)))")
    case (Inl err)
    with key show ?thesis
      by (simp add: Sign_cases)
  next
    case (Inr sig)
    with key show ?thesis
      by (simp add: Sign_cases GetID_def)
  qed
qed

theorem Sign_sets_both_or_neither_witness:
  "Sign stub entropy note_event key_a = (signed_event, None)
   \<and> ID signed_event = GetID stub note_event
   \<and> fst (Sign stub entropy note_event ''zz'') = note_event
   \<and> snd (Sign stub entropy note_event ''zz'') \<noteq> None"
proof -
  have bad: "Sign stub entropy note_event ''zz'' =
      (note_event, Some (Errorf_w
         (''Sign called with invalid private key '' @ sq # ''zz'' @ sq # '': '')
         (InvalidByteError (CHR ''z''))))"
    by (simp add: Sign_cases stub_def stub_ParseKey_zz)
  show ?thesis
    using Sign_sets_both_or_neither
        [where x = stub and rnd = entropy and evt = note_event and privateKey = key_a]
      Sign_sets_both_or_neither
        [where x = stub and rnd = entropy and evt = note_event and privateKey = "''zz''"]
    by (auto simp: Sign_stub_note bad)
qed

text \<open>
  C10. When the private key does not parse, \<open>Sign\<close> leaves the event as it was and
  returns an error whose text is \<open>Sign called with invalid private key '\<close>, the private
  key string as it was passed, \<open>': \<close> and the parser's own text: the key is part of the
  message.
\<close>

theorem Sign_error_shows_private_key:
  assumes "bip340_ParsePrivateKey x privateKey = Inl err"
  shows "\<exists>e. Sign x rnd evt privateKey = (evt, Some e)
           \<and> Error_text e =
               ''Sign called with invalid private key '' @ sq # privateKey @ sq # '': '' @ Error_text err
           \<and> sublist privateKey (Error_text e)"
proof -
  let ?e = "Errorf_w (''Sign called with invalid private key '' @ sq # privateKey @ sq # '': '') err"
  have "Sign x rnd evt privateKey = (evt, Some ?e)"
    using assms by (simp add: Sign_cases)
  moreover have etext: "Error_text ?e =
      ''Sign called with invalid private key '' @ sq # privateKey @ sq # '': '' @ Error_text err"
    by (simp add: Errorf_w_def)
  moreover have "sublist privateKey (Error_text ?e)"
    unfolding etext sublist_def
    by (rule exI [of _ "''Sign called with invalid private key '' @ [sq]"],
        rule exI [of _ "sq # '': '' @ Error_text err"]) simp
  ultimately show ?thesis by blast
qed

theorem Sign_error_shows_private_key_witness:
  "\<exists>e. Sign stub entropy note_event ''zz'' = (note_event, Some e)
     \<and> Error_text e =
         ''Sign called with invalid private key '' @ sq # ''zz'' @ sq # '': '' @
         Error_text (InvalidByteError (CHR ''z''))
     \<and> sublist ''zz'' (Error_text e)"
  by (rule Sign_error_shows_private_key) (simp add: stub_def stub_ParseKey_zz)

text \<open>
  C7. A random source that cannot deliver a single byte: \<open>rand.Read\<close> reports the
  error and leaves the 32 bytes of \<open>aux\<close> at zero. \<open>Sign\<close> does not look at the error: it
  hands the zero bytes to the library and returns what the library returns, here a
  signed event and no error.
\<close>

theorem Sign_proceeds_without_entropy:
  "rand_Read no_entropy (replicate 32 0) =
     (replicate 32 0, 0, Some (Error ''entropy source unavailable'' None))
   \<and> Sign x no_entropy evt privateKey =
       (case bip340_ParsePrivateKey x privateKey of
          Inl err \<Rightarrow>
            (evt, Some (Errorf_w
               (''Sign called with invalid private key '' @ sq # privateKey @ sq # '': '') err))
        | Inr s \<Rightarrow>
            (case bip340_Sign x s (sha256_Sum256 x (Serialize x evt)) (replicate 32 0) of
               Inl err \<Rightarrow> (evt, Some err)
             | Inr sig \<Rightarrow>
                 (evt\<lparr>ID := hex_EncodeToString (Rep_byte32 (sha256_Sum256 x (Serialize x evt))),
                      Sig := hex_EncodeToString (Rep_byte64 sig)\<rparr>, None)))
   \<and> Sign stub no_entropy note_event key_a = (signed_event, None)"
proof (intro conjI)
  show "rand_Read no_entropy (replicate 32 0) =
      (replicate 32 0, 0, Some (Error ''entropy source unavailable'' None))"
    by (rule aux_no_entropy)
  show "Sign stub no_entropy note_event key_a = (signed_event, None)"
    by (rule Sign_stub_note)
qed (simp add: Sign_cases aux_no_entropy split: sum.splits)

subsection \<open>Verification\<close>

text \<open>
  C3. When the private key parses, the event's author key parses to a public key under
  which the library accepts every signature it makes with that private key, and \<open>Sign\<close>
  returns no error, then \<open>CheckSignature\<close> on the signed event returns \<open>(true, nil)\<close>.
\<close>

theorem Sign_then_CheckSignature:
  assumes priv: "bip340_ParsePrivateKey x privateKey = Inr sk"
    and pub: "bip340_ParsePublicKey x (PubKey evt) = Inr pk"
    and pair: "\<forall>h aux sig. bip340_Sign x sk h aux = Inr sig \<longrightarrow> bip340_Verify x pk h sig = (True, None)"
    and ok: "snd (Sign x rnd evt privateKey) = None"
  shows "CheckSignature x (fst (Sign x rnd evt privateKey)) = (True, None)"
proof -
  let ?h = "sha256_Sum256 x (Serialize x evt)"
  let ?aux = "fst (rand_Read rnd (replicate 32 0))"
  obtain sig where sig: "bip340_Sign x sk ?h ?aux = Inr sig"
    using priv ok by (cases "bip340_Sign x sk ?h ?aux") (simp_all add: Sign_cases)
  let ?evt' = "evt\<lparr>ID := hex_EncodeToString (Rep_byte32 ?h), Sig := hex_EncodeToString (Rep_byte64 sig)\<rparr>"
  have res: "fst (Sign x rnd evt privateKey) = ?evt'"
    using priv sig by (simp add: Sign_cases)
  have "CheckSignature x ?evt' =
      bip340_Verify x pk (sha256_Sum256 x (Serialize x ?evt')) (Abs_byte64 (Rep_byte64 sig))"
    by (rule CheckSignature_verify) (simp_all add: pub hex_DecodeString_EncodeToString length_Rep_byte64)
  also have "\<dots> = bip340_Verify x pk ?h sig"
    by (simp add: Serialize_update_ID_Sig Rep_byte64_inverse)
  also have "\<dots> = (True, None)"
    using pair sig by blast
  finally show ?thesis by (simp add: res)
qed

theorem Sign_then_CheckSignature_witness:
  "snd (Sign stub entropy note_event key_a) = None
   \<and> CheckSignature stub (fst (Sign stub entropy note_event key_a)) = (True, None)"
proof -
  have priv: "bip340_ParsePrivateKey stub key_a = Inr (replicate 32 1)"
    by (simp add: stub_def stub_ParseKey_a)
  have pub: "bip340_ParsePublicKey stub (PubKey note_event) = Inr (replicate 32 1)"
    by (simp add: stub_def note_event_def stub_ParseKey_a)
  have pair: "\<forall>h aux sig. bip340_Sign stub (replicate 32 1) h aux = Inr sig \<longrightarrow>
      bip340_Verify stub (replicate 32 1) h sig = (True, None)"
    by (simp add: stub_def stub_Sign_Verify)
  have ok: "snd (Sign stub entropy note_event key_a) = None"
    by (simp add: Sign_stub_note)
  show ?thesis
    using ok Sign_then_CheckSignature [OF priv pub pair ok] by simp
qed

text \<open>
  The claim as the specification states it, for every event: the note that carries the
  author key \<open>key_b\<close> is signed with the valid private key \<open>key_a\<close> without error, and
  \<open>CheckSignature\<close> on the result does not return \<open>(true, nil)\<close>.
\<close>

theorem Sign_other_author_counterexample:
  "bip340_ParsePrivateKey stub key_a = Inr (replicate 32 1)
   \<and> bip340_ParsePublicKey stub (PubKey other_author_event) = Inr (replicate 32 2)
   \<and> snd (Sign stub entropy other_author_event key_a) = None
   \<and> CheckSignature stub (fst (Sign stub entropy other_author_event key_a)) =
       (False, Some (Error ''signature verification failed'' None))"
proof -
  let ?h = "sha256_Sum256 stub (Serialize stub other_author_event)"
  let ?sig = "Abs_byte64 (replicate 32 1 @ Rep_byte32 ?h)"
  let ?evt = "other_author_event\<lparr>ID := hex_EncodeToString (Rep_byte32 ?h),
                Sig := hex_EncodeToString (Rep_byte64 ?sig)\<rparr>"
  have priv: "bip340_ParsePrivateKey stub key_a = Inr (replicate 32 1)"
    by (simp add: stub_def stub_ParseKey_a)
  have pub: "bip340_ParsePublicKey stub (PubKey other_author_event) = Inr (replicate 32 2)"
    by (simp add: stub_def other_author_event_def stub_ParseKey_b)
  have res: "Sign stub entropy other_author_event key_a = (?evt, None)"
    by (simp add: Sign_cases priv aux_entropy) (simp add: stub_def stub_Sign_eq)
  have "CheckSignature stub ?evt =
      bip340_Verify stub (replicate 32 2) (sha256_Sum256 stub (Serialize stub ?evt))
        (Abs_byte64 (Rep_byte64 ?sig))"
    by (rule CheckSignature_verify)
       (simp_all add: other_author_event_def stub_def stub_ParseKey_b
          hex_DecodeString_EncodeToString length_Rep_byte64)
  also have "\<dots> = stub_Verify (replicate 32 2) ?h ?sig"
    by (simp add: Serialize_update_ID_Sig Rep_byte64_inverse) (simp add: stub_def)
  also have "\<dots> = (False, Some (Error ''signature verification failed'' None))"
    by (simp add: stub_Verify_eq)
  finally show ?thesis
    by (simp add: priv pub res)
qed

text \<open>
  C5. \<open>CheckSignature\<close> never reads the \<open>ID\<close> field: its result is the same whatever the
  field holds. When the author key parses and the signature decodes to 64 bytes, the
  result is the library's verdict on the author key, the SHA-256 digest of the event's
  serialization as it stands, and the signature. For an event whose \<open>ID\<close> field holds
  the computed identifier this is the verdict against the raw bytes of the identifier.
\<close>

theorem CheckSignature_digest:
  "CheckSignature x (evt\<lparr>ID := i\<rparr>) = CheckSignature x evt
   \<and> (\<forall>pubkey s. bip340_ParsePublicKey x (PubKey evt) = Inr pubkey \<longrightarrow>
          hex_DecodeString (Sig evt) = Inr s \<longrightarrow> length s = 64 \<longrightarrow>
          CheckSignature x evt =
            bip340_Verify x pubkey (sha256_Sum256 x (Serialize x evt)) (Abs_byte64 s))
   \<and> (ID evt = GetID x evt \<longrightarrow> fst (CheckSignature x evt) = spec_valid_for_identifier x evt)"
proof (intro conjI allI impI)
  show "CheckSignature x (evt\<lparr>ID := i\<rparr>) = CheckSignature x evt"
    by (rule CheckSignature_update_ID)
next
  fix pubkey s
  assume "bip340_ParsePublicKey x (PubKey evt) = Inr pubkey"
    and "hex_DecodeString (Sig evt) = Inr s" and "length s = 64"
  then show "CheckSignature x evt =
      bip340_Verify x pubkey (sha256_Sum256 x (Serialize x evt)) (Abs_byte64 s)"
    by (rule CheckSignature_verify)
next
  assume "ID evt = GetID x evt"
  then have "hex_DecodeString (ID evt) = Inr (Rep_byte32 (sha256_Sum256 x (Serialize x evt)))"
    by (simp add: GetID_def hex_DecodeString_EncodeToString)
  then show "fst (CheckSignature x evt) = spec_valid_for_identifier x evt"
    by (simp add: CheckSignature_def spec_valid_for_identifier_def copy_full
        length_Rep_byte32 Rep_byte32_inverse split: sum.splits)
qed

theorem CheckSignature_digest_witness:
  "CheckSignature stub (signed_event\<lparr>ID := ''''\<rparr>) = CheckSignature stub signed_event
   \<and> CheckSignature stub signed_event =
       bip340_Verify stub (replicate 32 1) (sha256_Sum256 stub (Serialize stub signed_event))
         (Abs_byte64 (replicate 32 1 @ replicate 32 91))
   \<and> ID signed_event = GetID stub signed_event
   \<and> spec_valid_for_identifier stub signed_event"
proof -
  have pub: "bip340_ParsePublicKey stub (PubKey signed_event) = Inr (replicate 32 1)"
    by (simp add: stub_def signed_event_def stub_ParseKey_a)
  have dec: "hex_DecodeString (Sig signed_event) = Inr (replicate 32 1 @ replicate 32 91)"
    by (simp add: signed_event_def decode_sig_5b del: hex_DecodeString.simps)
  show ?thesis
    using CheckSignature_digest [where x = stub and evt = signed_event and i = "''''"] pub dec
    by (simp add: GetID_signed CheckSignature_signed)
qed

text \<open>
  The claim as the specification states it: \<open>wrong_id_event\<close> carries a well-formed
  identifier that is not the digest of its serialization. Judged against the raw bytes
  of that identifier its signature is not valid, and \<open>CheckSignature\<close> returns
  \<open>(true, nil)\<close>.
\<close>

theorem CheckSignature_wrong_identifier_counterexample:
  "CheckSignature stub wrong_id_event = (True, None)
   \<and> \<not> spec_valid_for_identifier stub wrong_id_event"
proof -
  have "CheckSignature stub wrong_id_event = CheckSignature stub signed_event"
    using CheckSignature_update_ID [where x = stub and evt = signed_event and i = "ID wrong_id_event"]
    by (simp add: wrong_id_event_def signed_event_def)
  moreover have "hex_DecodeString (ID wrong_id_event) = Inr (replicate 32 0)"
    by (simp add: wrong_id_event_def fromHexChar_def replicate_32)
  then have "\<not> spec_valid_for_identifier stub wrong_id_event"
    by (simp add: spec_valid_for_identifier_def)
       (simp add: wrong_id_event_def stub_def stub_ParseKey_a decode_sig_5b stub_Verify_def
          Abs_byte64_inverse Abs_byte32_inverse)
  ultimately show ?thesis
    by (simp add: CheckSignature_signed)
qed

text \<open>
  C6. On a malformed input (the author key does not parse, the signature is not hex,
  or it does not decode to 64 bytes) \<open>CheckSignature\<close> returns \<open>false\<close> and an error.
  On every other input it returns the pair the library's \<open>Verify\<close> returns for the
  parsed key, the digest of the serialization and the 64 signature bytes, the error
  included if there is one. Every input has a result.
\<close>

theorem CheckSignature_error_cases:
  "(spec_malformed_input x evt \<longrightarrow>
      fst (CheckSignature x evt) = False \<and> snd (CheckSignature x evt) \<noteq> None)
   \<and> (\<not> spec_malformed_input x evt \<longrightarrow>
        (\<exists>pubkey s. bip340_ParsePublicKey x (PubKey evt) = Inr pubkey
           \<and> hex_DecodeString (Sig evt) = Inr s \<and> length s = 64
           \<and> CheckSignature x evt =
               bip340_Verify x pubkey (sha256_Sum256 x (Serialize x evt)) (Abs_byte64 s)))"
proof (cases "bip340_ParsePublicKey x (PubKey evt)")
  case (Inl err)
  then show ?thesis
    by (simp add: spec_malformed_input_def CheckSignature_def)
next
  case key: (Inr pubkey)
  show ?thesis
  proof (cases "hex_DecodeString (Sig evt)")
    case (Inl err)
    with key show ?thesis
      by (simp add: spec_malformed_input_def CheckSignature_def)
  next
    case dec: (Inr s)
    show ?thesis
    proof (cases "length s = 64")
      case True
      with key dec have "CheckSignature x evt =
          bip340_Verify x pubkey (sha256_Sum256 x (Serialize x evt)) (Abs_byte64 s)"
        by (simp add: CheckSignature_verify)
      with key dec True show ?thesis
        by (simp add: spec_malformed_input_def)
    next
      case False
      with key dec show ?thesis
        by (simp add: spec_malformed_input_def CheckSignature_def)
    qed
  qed
qed

theorem CheckSignature_error_cases_witness:
  "spec_malformed_input stub note_event
   \<and> fst (CheckSignature stub note_event) = False \<and> snd (CheckSignature stub note_event) \<noteq> None
   \<and> \<not> spec_malformed_input stub signed_event
   \<and> CheckSignature stub signed_event = (True, None)"
proof -
  have bad: "spec_malformed_input stub note_event"
    by (simp add: spec_malformed_input_def stub_def note_event_def stub_ParseKey_a)
  have good: "\<not> spec_malformed_input stub signed_event"
    by (simp add: spec_malformed_input_def stub_def stub_ParseKey_a)
       (simp add: signed_event_def stub_ParseKey_a decode_sig_5b del: hex_DecodeString.simps)
  show ?thesis
    using CheckSignature_error_cases [where x = stub and evt = note_event]
      CheckSignature_error_cases [where x = stub and evt = signed_event] bad good
    by (simp add: CheckSignature_signed)
qed

text \<open>
  The claim as the specification states it: \<open>bad_sig_event\<close> has an author key that
  parses and a signature of 64 bytes in hex that does not verify. \<open>CheckSignature\<close>
  returns \<open>false\<close> together with the library's error, not \<open>(false, nil)\<close>.
\<close>

theorem CheckSignature_invalid_signature_counterexample:
  "\<not> spec_malformed_input stub bad_sig_event
   \<and> CheckSignature stub bad_sig_event =
       (False, Some (Error ''signature verification failed'' None))"
proof -
  have pub: "bip340_ParsePublicKey stub (PubKey bad_sig_event) = Inr (replicate 32 1)"
    by (simp add: stub_def bad_sig_event_def stub_ParseKey_a)
  have dec: "hex_DecodeString (Sig bad_sig_event) = Inr (replicate 64 0)"
    by (simp add: bad_sig_event_def decode_zeros64 del: hex_DecodeString.simps)
  have "CheckSignature stub bad_sig_event =
      bip340_Verify stub (replicate 32 1) (sha256_Sum256 stub (Serialize stub bad_sig_event))
        (Abs_byte64 (replicate 64 0))"
    using pub dec by (rule CheckSignature_verify) simp
  also have "\<dots> = (False, Some (Error ''signature verification failed'' None))"
    by (simp add: stub_def stub_Verify_def Abs_byte64_inverse Rep_stub_Sum256)
       (simp add: replicate_32 eval_nat_numeral)
  finally show ?thesis
    using pub dec by (simp add: spec_malformed_input_def)
qed

end
